theory Spec2Isabelle
  imports Main "HOL-Library.Word"
begin

unbundle bit_operations_syntax

section \<open>Go values\<close>

text \<open>
  The functions of \<^verbatim>\<open>filters.go\<close> and \<^verbatim>\<open>collection/meta.go\<close> receive an
  \<^verbatim>\<open>interface{}\<close> and branch on its dynamic type. A dynamic value is a tagged union
  with one constructor per Go type the code distinguishes. \<^verbatim>\<open>int\<close> and \<^verbatim>\<open>uint\<close> are the
  64-bit types of the usual targets. A float is its IEEE 754 bit pattern. A byte string
  (\<^verbatim>\<open>[]byte\<close>, and the bytes of a Go \<^verbatim>\<open>string\<close>) is a \<^typ>\<open>string\<close>: a list of 8-bit
  characters.
\<close>

type_synonym bytes = string

text \<open>
  \<^verbatim>\<open>time.Time\<close> of the standard library, as far as the code looks at it: the instant
  (seconds and nanoseconds since January 1, year 1, 00:00:00 UTC) and the location.
  \<^verbatim>\<open>IsZero\<close> reports whether the instant is the zero instant, whatever the location.
\<close>

record go_time =
  sec :: int
  nsec :: int
  loc :: string

definition IsZero :: "go_time \<Rightarrow> bool" where
  "IsZero t = (sec t = 0 \<and> nsec t = 0)"

datatype go_value =
    GoString string
  | GoInt "64 word"
  | GoInt8 "8 word"
  | GoInt16 "16 word"
  | GoInt32 "32 word"
  | GoInt64 "64 word"
  | GoUint "64 word"
  | GoUint8 "8 word"
  | GoUint16 "16 word"
  | GoUint32 "32 word"
  | GoUint64 "64 word"
  | GoFloat32 "32 word"
  | GoFloat64 "64 word"
  | GoTime go_time
  | GoBytes bytes
  | GoBool bool
  | GoNil

text \<open>
  The comparison \<^verbatim>\<open>x != 0\<close> on a float: false exactly on the two zeros \<^verbatim>\<open>+0\<close> and
  \<^verbatim>\<open>-0\<close>, whose bit patterns differ in the sign bit only (a NaN is different from 0).
\<close>

definition float32_ne_zero :: "32 word \<Rightarrow> bool" where
  "float32_ne_zero w = (w AND 0x7FFFFFFF \<noteq> 0)"

definition float64_ne_zero :: "64 word \<Rightarrow> bool" where
  "float64_ne_zero w = (w AND 0x7FFFFFFFFFFFFFFF \<noteq> 0)"

datatype go_error =
    ErrWrongType
  | IndexOutOfRange
  | SliceBoundsOutOfRange
  | Corruption
  | EngineError
  | NotFound
  | RevisionOutOfRange

section \<open>Index references (collection/meta.go)\<close>

record IndexReference =
  IndexName :: string
  StringValue :: string
  IntValue :: "64 word"
  Int8aVlue :: "8 word"
  Int16Value :: "16 word"
  Int32Value :: "32 word"
  Int64Value :: "64 word"
  UintValue :: "64 word"
  Uint8Value :: "8 word"
  Uint16Value :: "16 word"
  Uint32Value :: "32 word"
  Uint64Value :: "64 word"
  Float32Value :: "32 word"
  Float64Value :: "64 word"
  TimeValue :: go_time

text \<open>The zero value of the struct but for its name: \<^verbatim>\<open>&IndexReference{IndexName: indexName}\<close>.\<close>

definition emptyIndexReference :: "string \<Rightarrow> IndexReference" where
  "emptyIndexReference indexName =
     \<lparr>IndexName = indexName, StringValue = [], IntValue = 0, Int8aVlue = 0,
      Int16Value = 0, Int32Value = 0, Int64Value = 0, UintValue = 0, Uint8Value = 0,
      Uint16Value = 0, Uint32Value = 0, Uint64Value = 0, Float32Value = 0,
      Float64Value = 0, TimeValue = \<lparr>sec = 0, nsec = 0, loc = []\<rparr>\<rparr>"

fun newIndexReference :: "string \<Rightarrow> go_value \<Rightarrow> IndexReference" where
  "newIndexReference indexName (GoString s) = (emptyIndexReference indexName)\<lparr>StringValue := s\<rparr>"
| "newIndexReference indexName (GoInt w) = (emptyIndexReference indexName)\<lparr>IntValue := w\<rparr>"
| "newIndexReference indexName (GoInt8 w) = (emptyIndexReference indexName)\<lparr>Int8aVlue := w\<rparr>"
| "newIndexReference indexName (GoInt16 w) = (emptyIndexReference indexName)\<lparr>Int16Value := w\<rparr>"
| "newIndexReference indexName (GoInt32 w) = (emptyIndexReference indexName)\<lparr>Int32Value := w\<rparr>"
| "newIndexReference indexName (GoInt64 w) = (emptyIndexReference indexName)\<lparr>Int64Value := w\<rparr>"
| "newIndexReference indexName (GoUint w) = (emptyIndexReference indexName)\<lparr>UintValue := w\<rparr>"
| "newIndexReference indexName (GoUint8 w) = (emptyIndexReference indexName)\<lparr>Uint8Value := w\<rparr>"
| "newIndexReference indexName (GoUint16 w) = (emptyIndexReference indexName)\<lparr>Uint16Value := w\<rparr>"
| "newIndexReference indexName (GoUint32 w) = (emptyIndexReference indexName)\<lparr>Uint32Value := w\<rparr>"
| "newIndexReference indexName (GoUint64 w) = (emptyIndexReference indexName)\<lparr>Uint64Value := w\<rparr>"
| "newIndexReference indexName (GoFloat32 w) = (emptyIndexReference indexName)\<lparr>Float32Value := w\<rparr>"
| "newIndexReference indexName (GoFloat64 w) = (emptyIndexReference indexName)\<lparr>Float64Value := w\<rparr>"
| "newIndexReference indexName (GoTime t) = (emptyIndexReference indexName)\<lparr>TimeValue := t\<rparr>"
| "newIndexReference indexName (GoBytes b) = emptyIndexReference indexName"
| "newIndexReference indexName (GoBool b) = emptyIndexReference indexName"
| "newIndexReference indexName GoNil = emptyIndexReference indexName"

definition GetValue :: "IndexReference \<Rightarrow> go_value" where
  "GetValue ref =
     (if StringValue ref \<noteq> [] then GoString (StringValue ref)
      else if IntValue ref \<noteq> 0 then GoInt (IntValue ref)
      else if Int8aVlue ref \<noteq> 0 then GoInt8 (Int8aVlue ref)
      else if Int16Value ref \<noteq> 0 then GoInt16 (Int16Value ref)
      else if Int32Value ref \<noteq> 0 then GoInt32 (Int32Value ref)
      else if Int64Value ref \<noteq> 0 then GoInt64 (Int64Value ref)
      else if UintValue ref \<noteq> 0 then GoUint (UintValue ref)
      else if Uint8Value ref \<noteq> 0 then GoUint8 (Uint8Value ref)
      else if Uint16Value ref \<noteq> 0 then GoUint16 (Uint16Value ref)
      else if Uint32Value ref \<noteq> 0 then GoUint32 (Uint32Value ref)
      else if Uint64Value ref \<noteq> 0 then GoUint64 (Uint64Value ref)
      else if float32_ne_zero (Float32Value ref) then GoFloat32 (Float32Value ref)
      else if float64_ne_zero (Float64Value ref) then GoFloat64 (Float64Value ref)
      else if \<not> IsZero (TimeValue ref) then GoTime (TimeValue ref)
      else GoNil)"

text \<open>
  The scalar types \<^verbatim>\<open>newIndexReference\<close> has a field for, and what it means for a value
  of one of them to be zero: the empty string, a number equal to 0, the zero instant.
\<close>

fun supported :: "go_value \<Rightarrow> bool" where
  "supported (GoBytes b) = False"
| "supported (GoBool b) = False"
| "supported GoNil = False"
| "supported v = True"

fun is_zero_value :: "go_value \<Rightarrow> bool" where
  "is_zero_value (GoString s) = (s = [])"
| "is_zero_value (GoInt w) = (w = 0)"
| "is_zero_value (GoInt8 w) = (w = 0)"
| "is_zero_value (GoInt16 w) = (w = 0)"
| "is_zero_value (GoInt32 w) = (w = 0)"
| "is_zero_value (GoInt64 w) = (w = 0)"
| "is_zero_value (GoUint w) = (w = 0)"
| "is_zero_value (GoUint8 w) = (w = 0)"
| "is_zero_value (GoUint16 w) = (w = 0)"
| "is_zero_value (GoUint32 w) = (w = 0)"
| "is_zero_value (GoUint64 w) = (w = 0)"
| "is_zero_value (GoFloat32 w) = (\<not> float32_ne_zero w)"
| "is_zero_value (GoFloat64 w) = (\<not> float64_ne_zero w)"
| "is_zero_value (GoTime t) = IsZero t"
| "is_zero_value (GoBytes b) = (b = [])"
| "is_zero_value (GoBool b) = (\<not> b)"
| "is_zero_value GoNil = True"

section \<open>Filters (filters.go)\<close>

text \<open>
  The declarations of \<^verbatim>\<open>IndexType\<close>, \<^verbatim>\<open>FilterOperator\<close>, \<^verbatim>\<open>Filter\<close> and
  \<^verbatim>\<open>filterValue\<close> are not among the source files; the constructors and fields are the
  ones the code uses, and \<^verbatim>\<open>UintIndex\<close> is the unsigned-integer type the specification
  lists.
\<close>

datatype IndexType = StringIndex | IntIndex | UintIndex | TimeIndex | BytesIndex

datatype FilterOperator = Equal | Greater | Less | Between

record filterValue =
  Type :: IndexType
  Value :: go_value

text \<open>\<^verbatim>\<open>values\<close> is a slice that is \<^verbatim>\<open>nil\<close> until the first value is set: \<open>None\<close> is \<^verbatim>\<open>nil\<close>.\<close>

record Filter =
  operator :: FilterOperator
  selector :: "string list"
  selectorHash :: "64 word"
  equal :: bool
  values_f :: "filterValue list option"

definition NewFilter :: "FilterOperator \<Rightarrow> Filter" where
  "NewFilter t = \<lparr>operator = t, selector = [], selectorHash = 0, equal = False, values_f = None\<rparr>"

fun newfilterValue :: "go_value \<Rightarrow> go_error + filterValue" where
  "newfilterValue (GoString s) = Inr \<lparr>Type = StringIndex, Value = GoString s\<rparr>"
| "newfilterValue (GoInt w) = Inr \<lparr>Type = IntIndex, Value = GoInt w\<rparr>"
| "newfilterValue (GoInt8 w) = Inr \<lparr>Type = IntIndex, Value = GoInt8 w\<rparr>"
| "newfilterValue (GoInt16 w) = Inr \<lparr>Type = IntIndex, Value = GoInt16 w\<rparr>"
| "newfilterValue (GoInt32 w) = Inr \<lparr>Type = IntIndex, Value = GoInt32 w\<rparr>"
| "newfilterValue (GoInt64 w) = Inr \<lparr>Type = IntIndex, Value = GoInt64 w\<rparr>"
| "newfilterValue (GoUint w) = Inr \<lparr>Type = IntIndex, Value = GoUint w\<rparr>"
| "newfilterValue (GoUint8 w) = Inr \<lparr>Type = IntIndex, Value = GoUint8 w\<rparr>"
| "newfilterValue (GoUint16 w) = Inr \<lparr>Type = IntIndex, Value = GoUint16 w\<rparr>"
| "newfilterValue (GoUint32 w) = Inr \<lparr>Type = IntIndex, Value = GoUint32 w\<rparr>"
| "newfilterValue (GoUint64 w) = Inr \<lparr>Type = IntIndex, Value = GoUint64 w\<rparr>"
| "newfilterValue (GoTime t) = Inr \<lparr>Type = TimeIndex, Value = GoTime t\<rparr>"
| "newfilterValue v = Inl ErrWrongType"

text \<open>
  \<^verbatim>\<open>CompareTo\<close> returns the filter it was called on and no error. When the slice already
  holds two values of a between filter, the second is overwritten and the code goes on to
  the \<^verbatim>\<open>append\<close> below it.
\<close>

definition CompareTo :: "go_value \<Rightarrow> Filter \<Rightarrow> Filter" where
  "CompareTo val f =
     (case newfilterValue val of
        Inl parseErr \<Rightarrow> f
      | Inr filterValuePointer \<Rightarrow>
          (case values_f f of
             None \<Rightarrow> f\<lparr>values_f := Some [filterValuePointer]\<rparr>
           | Some vs \<Rightarrow>
               if operator f \<noteq> Between then f\<lparr>values_f := Some [filterValuePointer]\<rparr>
               else
                 let vs' = (if length vs \<ge> 2 then vs[1 := filterValuePointer] else vs)
                 in f\<lparr>values_f := Some (vs' @ [filterValuePointer])\<rparr>))"

definition GetType :: "Filter \<Rightarrow> FilterOperator" where
  "GetType f = operator f"

definition EqualWanted :: "Filter \<Rightarrow> Filter" where
  "EqualWanted f = f\<lparr>equal := True\<rparr>"

text \<open>\<^verbatim>\<open>buildSelectorHash\<close> is not among the source files: it is a parameter.\<close>

definition SetSelector :: "(string list \<Rightarrow> 64 word) \<Rightarrow> string list \<Rightarrow> Filter \<Rightarrow> Filter" where
  "SetSelector buildSelectorHash s f = f\<lparr>selector := s, selectorHash := buildSelectorHash s\<rparr>"

section \<open>Indexes (the file defining Index and Refs)\<close>

record Index =
  Name :: string
  Selector :: "string list"
  Type_idx :: IndexType

text \<open>
  The first loop of \<^verbatim>\<open>DoesFilterApplyToIndex\<close>, \<^verbatim>\<open>for j := range i.Selector\<close>: the
  second argument holds the elements of the index's selector from position \<open>j\<close> on. Go
  panics when \<^verbatim>\<open>filter.selector[j]\<close> is read at a position the filter's selector does
  not have. \<open>Inr True\<close> is the end of the loop without a return.
\<close>

fun selectorLoop :: "string list \<Rightarrow> string list \<Rightarrow> nat \<Rightarrow> go_error + bool" where
  "selectorLoop fsel [] j = Inr True"
| "selectorLoop fsel (s # rest) j =
     (if j < length fsel
      then (if fsel ! j \<noteq> s then Inr False else selectorLoop fsel rest (Suc j))
      else Inl IndexOutOfRange)"

text \<open>The second loop: \<^verbatim>\<open>for _, value := range filter.values\<close>.\<close>

fun valuesLoop :: "IndexType \<Rightarrow> filterValue list \<Rightarrow> bool" where
  "valuesLoop t [] = False"
| "valuesLoop t (v # vs) = (if Type v = t then True else valuesLoop t vs)"

definition DoesFilterApplyToIndex :: "Index \<Rightarrow> Filter \<Rightarrow> go_error + bool" where
  "DoesFilterApplyToIndex i flt =
     (case selectorLoop (selector flt) (Selector i) 0 of
        Inl panic \<Rightarrow> Inl panic
      | Inr False \<Rightarrow> Inr False
      | Inr True \<Rightarrow>
          Inr (valuesLoop (Type_idx i) (case values_f flt of None \<Rightarrow> [] | Some vs \<Rightarrow> vs)))"

section \<open>Range lookups (index_internal.go)\<close>

text \<open>\<^verbatim>\<open>bytes.Compare\<close>: lexicographic, byte by byte, unsigned.\<close>

fun bytes_Compare :: "bytes \<Rightarrow> bytes \<Rightarrow> int" where
  "bytes_Compare [] [] = 0"
| "bytes_Compare [] (y # ys) = - 1"
| "bytes_Compare (x # xs) [] = 1"
| "bytes_Compare (x # xs) (y # ys) =
     (if (of_char x :: nat) < of_char y then - 1
      else if (of_char y :: nat) < of_char x then 1
      else bytes_Compare xs ys)"

text \<open>
  Modelled from the spec: the bucket of the external key/value engine and its cursor
  (\<^verbatim>\<open>bolt\<close>, not part of the repository). A bucket is the list of its entries in
  ascending key order and a cursor is a position in it. \<^verbatim>\<open>Seek\<close> moves to the given key,
  or to the next key when the given one is absent; \<^verbatim>\<open>Next\<close> and \<^verbatim>\<open>Prev\<close> move by one
  entry. Each returns the entry the cursor is on, or a \<^verbatim>\<open>nil\<close> key and value (here two
  empty byte strings) when there is none. After a \<^verbatim>\<open>Seek\<close> beyond the last key,
  \<^verbatim>\<open>Prev\<close> returns the last entry.
\<close>

type_synonym bucket = "(bytes \<times> bytes) list"

fun seekPosition :: "bucket \<Rightarrow> bytes \<Rightarrow> nat" where
  "seekPosition [] k = 0"
| "seekPosition (e # rest) k =
     (if bytes_Compare (fst e) k < 0 then Suc (seekPosition rest k) else 0)"

definition cursorEntry :: "bucket \<Rightarrow> nat \<Rightarrow> bytes \<times> bytes" where
  "cursorEntry bkt pos = (if pos < length bkt then bkt ! pos else ([], []))"

definition Seek :: "bucket \<Rightarrow> bytes \<Rightarrow> nat \<times> bytes \<times> bytes" where
  "Seek bkt k = (seekPosition bkt k, cursorEntry bkt (seekPosition bkt k))"

definition Next :: "bucket \<Rightarrow> nat \<Rightarrow> nat \<times> bytes \<times> bytes" where
  "Next bkt pos =
     (if Suc pos < length bkt then (Suc pos, cursorEntry bkt (Suc pos)) else (pos, [], []))"

definition Prev :: "bucket \<Rightarrow> nat \<Rightarrow> nat \<times> bytes \<times> bytes" where
  "Prev bkt pos =
     (if 0 < pos then (pos - 1, cursorEntry bkt (pos - 1)) else (pos, [], []))"

record idType =
  ID :: string
  values_id :: "64 word \<Rightarrow> bytes option"

record idsType =
  IDs :: "idType list"

record options =
  InternalQueryLimit :: int

record indexType =
  Name_it :: string
  SelectorHash :: "64 word"
  options_it :: options

text \<open>
  Modelled from the spec: \<^verbatim>\<open>newIDs\<close> and \<^verbatim>\<open>AddIDs\<close>, which are not among the source
  files. \<^verbatim>\<open>newIDs\<close> decodes the id list stored under an indexed value and records that
  value for the index's selector in every entry; no bytes give the empty set; a list
  that does not decode is an error. The decoder itself (\<^verbatim>\<open>unmarshal\<close>) is a parameter.
  \<^verbatim>\<open>AddIDs\<close> adds entry by entry: an entry whose id is already there merges its values
  into the one there, another is inserted at its place in id order.
\<close>

definition newIDs ::
  "(bytes \<Rightarrow> string list option) \<Rightarrow> 64 word \<Rightarrow> bytes \<Rightarrow> bytes \<Rightarrow> go_error + idsType" where
  "newIDs unmarshal selHash referredValue idsAsBytes =
     (if idsAsBytes = [] then Inr \<lparr>IDs = []\<rparr>
      else case unmarshal idsAsBytes of
             None \<Rightarrow> Inl Corruption
           | Some ids \<Rightarrow>
               Inr \<lparr>IDs = map (\<lambda>i. \<lparr>ID = i, values_id = [selHash \<mapsto> referredValue]\<rparr>) ids\<rparr>)"

fun addID :: "idType \<Rightarrow> idType list \<Rightarrow> idType list" where
  "addID e [] = [e]"
| "addID e (x # xs) =
     (if ID e = ID x then x\<lparr>values_id := values_id x ++ values_id e\<rparr> # xs
      else if bytes_Compare (ID e) (ID x) < 0 then e # x # xs
      else x # addID e xs)"

definition AddIDs :: "idsType \<Rightarrow> idsType \<Rightarrow> idsType" where
  "AddIDs i idsToAdd = i\<lparr>IDs := fold addID (IDs idsToAdd) (IDs i)\<rparr>"

definition nextFunc :: "bool \<Rightarrow> bucket \<Rightarrow> nat \<Rightarrow> nat \<times> bytes \<times> bytes" where
  "nextFunc increasing bkt pos = (if increasing then Next bkt pos else Prev bkt pos)"

text \<open>The test against \<^verbatim>\<open>limit\<close> inside the loop; \<open>None\<close> is a \<^verbatim>\<open>nil\<close> limit.\<close>

definition limitCrossed :: "bytes option \<Rightarrow> bool \<Rightarrow> bytes \<Rightarrow> bool" where
  "limitCrossed limit keepEqual indexedValue =
     (case limit of
        None \<Rightarrow> False
      | Some l \<Rightarrow>
          if keepEqual then bytes_Compare l indexedValue < 0
          else bytes_Compare l indexedValue \<le> 0)"

text \<open>
  The \<^verbatim>\<open>for\<close> loop of \<^verbatim>\<open>getIDsForRangeOfValues\<close>, from the cursor position \<open>pos\<close> with
  the ids gathered so far. The slice expression \<^verbatim>\<open>allIDs.IDs[:InternalQueryLimit]\<close> panics
  on a negative bound.
\<close>

function rangeLoop ::
  "(bytes \<Rightarrow> string list option) \<Rightarrow> indexType \<Rightarrow> bucket \<Rightarrow> bytes option \<Rightarrow> bool \<Rightarrow> bool \<Rightarrow>
   nat \<Rightarrow> idsType \<Rightarrow> go_error + idsType" where
  "rangeLoop unmarshal i bkt limit keepEqual increasing pos allIDs =
     (case nextFunc increasing bkt pos of
        (pos', indexedValue, idsAsByte) \<Rightarrow>
          if length indexedValue \<le> 0 \<and> length idsAsByte \<le> 0 then Inr allIDs
          else
            (case newIDs unmarshal (SelectorHash i) indexedValue idsAsByte of
               Inl unmarshalIDsErr \<Rightarrow> Inl unmarshalIDsErr
             | Inr ids \<Rightarrow>
                 if limitCrossed limit keepEqual indexedValue then Inr allIDs
                 else
                   let allIDs' = AddIDs allIDs ids in
                   if int (length (IDs allIDs')) > InternalQueryLimit (options_it i)
                   then
                     (if InternalQueryLimit (options_it i) < 0 then Inl SliceBoundsOutOfRange
                      else Inr (allIDs'\<lparr>IDs :=
                                  take (nat (InternalQueryLimit (options_it i))) (IDs allIDs')\<rparr>))
                   else rangeLoop unmarshal i bkt limit keepEqual increasing pos' allIDs'))"
  by pat_completeness auto
termination
proof (relation "measure (\<lambda>(unmarshal, i, bkt, limit, keepEqual, increasing, pos, allIDs).
          if increasing then length bkt - pos else pos)", goal_cases)
  case 1
  show ?case by simp
next
  case (2 unmarshal i bkt limit keepEqual increasing pos allIDs x pos' y indexedValue idsAsByte)
  then show ?case
    by (auto simp: nextFunc_def Next_def Prev_def split: if_splits)
qed

text \<open>
  \<^verbatim>\<open>getIDsForRangeOfValues\<close>. The argument \<open>tx\<close> is what \<^verbatim>\<open>i.getTx(false)\<close> and the
  lookup of the index's bucket give: an error or the bucket. Two byte strings are
  \<^verbatim>\<open>DeepEqual\<close> when they are the same bytes; a \<^verbatim>\<open>nil\<close> key comes with no ids, so the
  difference between \<^verbatim>\<open>nil\<close> and an empty byte string changes no result.
\<close>

definition getIDsForRangeOfValues ::
  "(bytes \<Rightarrow> string list option) \<Rightarrow> indexType \<Rightarrow> go_error + bucket \<Rightarrow> bytes \<Rightarrow> bytes option \<Rightarrow>
   bool \<Rightarrow> bool \<Rightarrow> go_error + idsType" where
  "getIDsForRangeOfValues unmarshal i tx indexedValue limit keepEqual increasing =
     (case tx of
        Inl getTxErr \<Rightarrow> Inl getTxErr
      | Inr bkt \<Rightarrow>
          (case Seek bkt indexedValue of
             (pos, firstIndexedValueAsByte, firstIDsAsByte) \<Rightarrow>
               (case newIDs unmarshal (SelectorHash i) indexedValue firstIDsAsByte of
                  Inl unmarshalIDsErr \<Rightarrow> Inl unmarshalIDsErr
                | Inr firstIDsValue \<Rightarrow>
                    let allIDs = \<lparr>IDs = []\<rparr>;
                        allIDs = (if firstIndexedValueAsByte = indexedValue \<and> keepEqual
                                  then AddIDs allIDs firstIDsValue else allIDs)
                    in rangeLoop unmarshal i bkt limit keepEqual increasing pos allIDs)))"

text \<open>
  A decoder to evaluate examples with, in place of the JSON decoder of the code: the ids
  of a list are separated by commas.
\<close>

fun splitCommas :: "string \<Rightarrow> string \<Rightarrow> string list" where
  "splitCommas cur [] = [rev cur]"
| "splitCommas cur (c # cs) =
     (if c = CHR '','' then rev cur # splitCommas [] cs else splitCommas (c # cur) cs)"

definition commaIDs :: "bytes \<Rightarrow> string list option" where
  "commaIDs bs = Some (splitCommas [] bs)"

section \<open>The versioned record store\<close>

text \<open>
  Modelled from the spec: \<^verbatim>\<open>Put\<close>, \<^verbatim>\<open>Get\<close> and \<^verbatim>\<open>Rollback\<close> of a collection, which are
  not among the source files (only their test, \<^verbatim>\<open>TestRollback\<close> in
  \<^verbatim>\<open>collections_test.go\<close>, is). A record keeps its revisions newest first, each with the
  timestamp of its put; a put adds a revision and keeps the newest \<open>RevisionDepth\<close> ones.
  Revision 0 is the live one and revision \<open>N\<close> the \<open>N\<close>th previous: \<^verbatim>\<open>Get\<close> with
  revision 0 reads the live payload and with \<open>N > 0\<close> the \<open>N\<close>th previous one, or fails
  with \<^verbatim>\<open>NotFound\<close>. \<^verbatim>\<open>Rollback(id, N)\<close> loads the revision at offset \<open>N\<close>, puts it again
  as the live revision (which adds a revision) and returns the timestamp of the revision
  it restored; when there is no revision at that offset it fails with
  \<^verbatim>\<open>RevisionOutOfRange\<close> and changes nothing. The indexes, which a put also updates,
  are left out. The test counts the offsets of \<^verbatim>\<open>Rollback\<close> from the revision before
  the live one and reads payloads that were encoded again; the definitions follow the
  words of the specification, not the test.
\<close>

record revision =
  timestamp :: nat
  payload :: bytes

record store =
  revisions :: "string \<Rightarrow> revision list"
  clock :: nat
  RevisionDepth :: nat

definition emptyStore :: "nat \<Rightarrow> store" where
  "emptyStore k = \<lparr>revisions = (\<lambda>rid. []), clock = 0, RevisionDepth = k\<rparr>"

definition Put :: "string \<Rightarrow> bytes \<Rightarrow> store \<Rightarrow> store" where
  "Put rid content s =
     s\<lparr>revisions := (revisions s)
          (rid := take (RevisionDepth s)
                   (\<lparr>timestamp = Suc (clock s), payload = content\<rparr> # revisions s rid)),
       clock := Suc (clock s)\<rparr>"

definition Get :: "string \<Rightarrow> nat \<Rightarrow> store \<Rightarrow> go_error + bytes" where
  "Get rid n s =
     (if n < length (revisions s rid) then Inr (payload (revisions s rid ! n))
      else Inl NotFound)"

definition Rollback :: "string \<Rightarrow> nat \<Rightarrow> store \<Rightarrow> (go_error + nat) \<times> store" where
  "Rollback rid n s =
     (if n < length (revisions s rid)
      then
        (let r = revisions s rid ! n
         in (Inr (timestamp r), Put rid (payload r) s))
      else (Inl RevisionOutOfRange, s))"

section \<open>Predicates and examples the theorems use\<close>

text \<open>
  The tags \<^verbatim>\<open>newfilterValue\<close> gives: every value of a filter is tagged with the string,
  the signed-integer or the time index type.
\<close>

fun taggedValues :: "filterValue list \<Rightarrow> bool" where
  "taggedValues [] = True"
| "taggedValues (v # vs) =
     ((Type v = StringIndex \<or> Type v = IntIndex \<or> Type v = TimeIndex) \<and> taggedValues vs)"

definition taggedFilter :: "Filter \<Rightarrow> bool" where
  "taggedFilter f = (case values_f f of None \<Rightarrow> True | Some vs \<Rightarrow> taggedValues vs)"

text \<open>
  The runtime types a filter value is built from: the string, the signed and the
  unsigned integers, and \<^verbatim>\<open>time.Time\<close>. A float, a byte slice, a boolean and \<^verbatim>\<open>nil\<close>
  (which stand for every other type) are none of them.
\<close>

fun filterScalar :: "go_value \<Rightarrow> bool" where
  "filterScalar (GoString s) = True"
| "filterScalar (GoInt w) = True"
| "filterScalar (GoInt8 w) = True"
| "filterScalar (GoInt16 w) = True"
| "filterScalar (GoInt32 w) = True"
| "filterScalar (GoInt64 w) = True"
| "filterScalar (GoUint w) = True"
| "filterScalar (GoUint8 w) = True"
| "filterScalar (GoUint16 w) = True"
| "filterScalar (GoUint32 w) = True"
| "filterScalar (GoUint64 w) = True"
| "filterScalar (GoTime t) = True"
| "filterScalar (GoFloat32 w) = False"
| "filterScalar (GoFloat64 w) = False"
| "filterScalar (GoBytes b) = False"
| "filterScalar (GoBool b) = False"
| "filterScalar GoNil = False"

text \<open>The ids of a lookup's result, in order.\<close>

definition idStrings :: "go_error + idsType \<Rightarrow> go_error + string list" where
  "idStrings r = (case r of Inl e \<Rightarrow> Inl e | Inr ids \<Rightarrow> Inr (map ID (IDs ids)))"

text \<open>
  The store of the specification's rollback scenario: three puts of the record \<^verbatim>\<open>"1"\<close>.
\<close>

definition threePuts :: store where
  "threePuts =
     Put ''1'' ''third'' (Put ''1'' ''second'' (Put ''1'' ''first'' (emptyStore 10)))"

section \<open>Index references: the round trip\<close>

text \<open>
  C10. For every supported scalar value that is not zero, \<^verbatim>\<open>GetValue\<close> on the reference
  built from it returns the value; for every supported value that is zero (the empty
  string, a number equal to 0, the zero instant), it returns \<^verbatim>\<open>nil\<close>: the round trip
  loses zero values.
\<close>

theorem GetValue_newIndexReference:
  assumes "supported v"
  shows "(\<not> is_zero_value v \<longrightarrow> GetValue (newIndexReference name v) = v) \<and>
         (is_zero_value v \<longrightarrow> GetValue (newIndexReference name v) = GoNil)"
  using assms
  by (cases v) (simp_all add: GetValue_def emptyIndexReference_def IsZero_def
      float32_ne_zero_def float64_ne_zero_def)

theorem GetValue_newIndexReference_witness:
  "supported (GoInt16 7) \<and> \<not> is_zero_value (GoInt16 7) \<and>
   GetValue (newIndexReference ''age'' (GoInt16 7)) = GoInt16 7 \<and>
   supported (GoString []) \<and> is_zero_value (GoString []) \<and>
   GetValue (newIndexReference ''age'' (GoString [])) = GoNil"
  using GetValue_newIndexReference [of "GoInt16 7" "''age''"]
    GetValue_newIndexReference [of "GoString []" "''age''"]
  by simp

section \<open>Filters: the values of a filter\<close>

lemma newfilterValue_tag:
  "newfilterValue v = Inr fv \<Longrightarrow>
     (Type fv = StringIndex \<or> Type fv = IntIndex \<or> Type fv = TimeIndex) \<and> Value fv = v"
  by (cases v) auto

lemma newfilterValue_error: "newfilterValue v = Inl e \<Longrightarrow> e = ErrWrongType"
  by (cases v) auto

lemma newfilterValue_unsigned:
  "newfilterValue (GoUint a) = Inr \<lparr>Type = IntIndex, Value = GoUint a\<rparr>"
  "newfilterValue (GoUint8 b) = Inr \<lparr>Type = IntIndex, Value = GoUint8 b\<rparr>"
  "newfilterValue (GoUint16 c) = Inr \<lparr>Type = IntIndex, Value = GoUint16 c\<rparr>"
  "newfilterValue (GoUint32 d) = Inr \<lparr>Type = IntIndex, Value = GoUint32 d\<rparr>"
  "newfilterValue (GoUint64 e) = Inr \<lparr>Type = IntIndex, Value = GoUint64 e\<rparr>"
  by simp_all

text \<open>A filter that is not a between filter holds the one value of the last successful call.\<close>

lemma CompareTo_single:
  "newfilterValue v = Inr fv \<Longrightarrow> operator f \<noteq> Between \<Longrightarrow>
   values_f (CompareTo v f) = Some [fv]"
  by (simp add: CompareTo_def split: option.splits)

text \<open>A between filter that holds values gets one more with every successful call.\<close>

lemma CompareTo_between_grows:
  "newfilterValue v = Inr fv \<Longrightarrow> operator f = Between \<Longrightarrow> values_f f = Some vs \<Longrightarrow>
   \<exists>ws. values_f (CompareTo v f) = Some ws \<and> length ws = Suc (length vs)"
  by (simp add: CompareTo_def Let_def)

text \<open>
  C5. A between filter is meant to carry at most two values (\<^verbatim>\<open>// Limit the numbers of 2
  filters\<close>). The code misses the \<^verbatim>\<open>return\<close> after overwriting the second value, so
  the third call of \<^verbatim>\<open>CompareTo\<close> leaves three values in the filter.
\<close>

theorem CompareTo_between_three_values:
  "values_f (CompareTo (GoInt 3) (CompareTo (GoInt 2) (CompareTo (GoInt 1) (NewFilter Between)))) =
     Some [\<lparr>Type = IntIndex, Value = GoInt 1\<rparr>, \<lparr>Type = IntIndex, Value = GoInt 3\<rparr>,
           \<lparr>Type = IntIndex, Value = GoInt 3\<rparr>]"
  by (simp add: CompareTo_def NewFilter_def)

text \<open>A value of one of the accepted types becomes the last value of the filter.\<close>

lemma CompareTo_adds_value:
  "filterScalar v \<Longrightarrow>
   \<exists>vs fv. values_f (CompareTo v f) = Some (vs @ [fv]) \<and> newfilterValue v = Inr fv \<and>
     Value fv = v"
  by (cases v; cases "values_f f") (simp_all add: CompareTo_def Let_def)

text \<open>
  C7, as amended. Building a filter value from a value whose runtime type is not the
  string, a signed or unsigned integer or \<^verbatim>\<open>time.Time\<close> fails in \<^verbatim>\<open>newfilterValue\<close> with
  \<^verbatim>\<open>ErrWrongType\<close>, and from a value of one of those types it does not. The failure is
  not fatal and does not surface: \<^verbatim>\<open>CompareTo\<close>, the caller, drops the error by design
  and returns the filter unchanged, as if the call had not happened; it has no error to
  return.
\<close>

theorem CompareTo_wrong_type_unchanged:
  "(newfilterValue v = Inl ErrWrongType \<longleftrightarrow> \<not> filterScalar v) \<and>
   (\<not> filterScalar v \<longrightarrow> CompareTo v f = f)"
  by (cases v) (simp_all add: CompareTo_def)

theorem CompareTo_wrong_type_unchanged_witness:
  "\<not> filterScalar (GoBool True) \<and>
   newfilterValue (GoBool True) = Inl ErrWrongType \<and>
   CompareTo (GoBool True) (EqualWanted (NewFilter Less)) = EqualWanted (NewFilter Less) \<and>
   filterScalar (GoUint8 3) \<and>
   newfilterValue (GoUint8 3) \<noteq> Inl ErrWrongType"
  using CompareTo_wrong_type_unchanged [of "GoBool True" "EqualWanted (NewFilter Less)"]
    CompareTo_wrong_type_unchanged [of "GoUint8 3" "NewFilter Less"]
  by simp

text \<open>
  C7 as stated fails: the float 0.5 is no indexable scalar, \<^verbatim>\<open>newfilterValue\<close> reports
  the error, and \<^verbatim>\<open>CompareTo\<close> leaves the filter as if it had not been called.
\<close>

theorem CompareTo_drops_wrong_type:
  "newfilterValue (GoFloat64 0x3FE0000000000000) = Inl ErrWrongType \<and>
   CompareTo (GoFloat64 0x3FE0000000000000) (NewFilter Greater) = NewFilter Greater"
  by (simp add: CompareTo_def)

subsection \<open>The tags of a filter's values\<close>

lemma taggedValues_append: "taggedValues (xs @ ys) = (taggedValues xs \<and> taggedValues ys)"
  by (induction xs) auto

lemma taggedValues_update:
  "taggedValues xs \<Longrightarrow> taggedValues [x] \<Longrightarrow> taggedValues (xs[n := x])"
  by (induction xs arbitrary: n) (auto split: nat.splits)

lemma taggedFilter_NewFilter: "taggedFilter (NewFilter t)"
  by (simp add: taggedFilter_def NewFilter_def)

lemma taggedFilter_EqualWanted: "taggedFilter (EqualWanted f) = taggedFilter f"
  by (simp add: taggedFilter_def EqualWanted_def)

lemma taggedFilter_SetSelector: "taggedFilter (SetSelector h s f) = taggedFilter f"
  by (simp add: taggedFilter_def SetSelector_def)

lemma taggedFilter_CompareTo: "taggedFilter f \<Longrightarrow> taggedFilter (CompareTo v f)"
proof (cases "newfilterValue v")
  case (Inl e)
  assume "taggedFilter f"
  with Inl show ?thesis by (simp add: CompareTo_def)
next
  case (Inr fv)
  assume f: "taggedFilter f"
  from Inr have fv: "taggedValues [fv]"
    using newfilterValue_tag [of v fv] by simp
  show ?thesis
  proof (cases "values_f f")
    case None
    with Inr fv show ?thesis by (simp add: CompareTo_def taggedFilter_def)
  next
    case (Some vs)
    with f have "taggedValues vs" by (simp add: taggedFilter_def)
    with Inr Some fv show ?thesis
      by (simp add: CompareTo_def taggedFilter_def Let_def taggedValues_append
          taggedValues_update)
  qed
qed

section \<open>Indexes: which filters apply\<close>

lemma selectorLoop_in_range:
  "j + length isel \<le> length fsel \<Longrightarrow> \<exists>b. selectorLoop fsel isel j = Inr b"
  by (induction isel arbitrary: j) auto

text \<open>
  The first loop ends without a return exactly when the index's selector is a prefix of
  what the filter's selector holds from position \<open>j\<close> on.
\<close>

lemma selectorLoop_prefix:
  "j \<le> length fsel \<Longrightarrow>
   selectorLoop fsel isel j = Inr True \<longleftrightarrow>
     j + length isel \<le> length fsel \<and> take (length isel) (drop j fsel) = isel"
proof (induction isel arbitrary: j)
  case Nil
  then show ?case by simp
next
  case (Cons s rest)
  show ?case
  proof (cases "j < length fsel")
    case True
    then have d: "drop j fsel = fsel ! j # drop (Suc j) fsel"
      by (rule Cons_nth_drop_Suc [symmetric])
    from True have le:
      "(Suc j + length rest \<le> length fsel) = (j + length (s # rest) \<le> length fsel)"
      by simp
    show ?thesis
    proof (cases "fsel ! j = s")
      case same: True
      with True have "selectorLoop fsel (s # rest) j = selectorLoop fsel rest (Suc j)"
        by simp
      moreover from True have "Suc j \<le> length fsel" by simp
      ultimately show ?thesis using Cons.IH [of "Suc j"] le d same by simp
    next
      case False
      with True d show ?thesis by simp
    qed
  next
    case False
    then show ?thesis by simp
  qed
qed

text \<open>It panics exactly when the filter's selector runs out while it still agrees.\<close>

lemma selectorLoop_panic:
  "j \<le> length fsel \<Longrightarrow>
   selectorLoop fsel isel j = Inl e \<longleftrightarrow>
     e = IndexOutOfRange \<and> length fsel < j + length isel \<and>
     drop j fsel = take (length fsel - j) isel"
proof (induction isel arbitrary: j)
  case Nil
  then show ?case by simp
next
  case (Cons s rest)
  show ?case
  proof (cases "j < length fsel")
    case True
    then have d: "drop j fsel = fsel ! j # drop (Suc j) fsel"
      by (rule Cons_nth_drop_Suc [symmetric])
    from True have sj: "Suc j \<le> length fsel" by simp
    have t: "take (length fsel - j) (s # rest) = s # take (length fsel - Suc j) rest"
    proof -
      from True have "length fsel - j = Suc (length fsel - Suc j)" by simp
      then show ?thesis by simp
    qed
    show ?thesis
    proof (cases "fsel ! j = s")
      case same: True
      with True have "selectorLoop fsel (s # rest) j = selectorLoop fsel rest (Suc j)"
        by simp
      then show ?thesis using Cons.IH [OF sj] d t same by auto
    next
      case False
      with True d t show ?thesis by simp
    qed
  next
    case False
    with Cons.prems have "j = length fsel" by simp
    then show ?thesis by auto
  qed
qed

text \<open>
  What \<^verbatim>\<open>DoesFilterApplyToIndex\<close> computes: it returns true exactly when the index's
  selector is a prefix of the filter's and a value of the filter has the index's type;
  it panics exactly when the filter's selector is a proper prefix of the index's.
\<close>

lemma DoesFilterApplyToIndex_true_iff:
  "DoesFilterApplyToIndex i f = Inr True \<longleftrightarrow>
     length (Selector i) \<le> length (selector f) \<and>
     take (length (Selector i)) (selector f) = Selector i \<and>
     valuesLoop (Type_idx i) (case values_f f of None \<Rightarrow> [] | Some vs \<Rightarrow> vs)"
  using selectorLoop_prefix [of 0 "selector f" "Selector i"]
  by (auto simp: DoesFilterApplyToIndex_def split: sum.splits bool.splits)

lemma DoesFilterApplyToIndex_panics_iff:
  "DoesFilterApplyToIndex i f = Inl IndexOutOfRange \<longleftrightarrow>
     length (selector f) < length (Selector i) \<and>
     take (length (selector f)) (Selector i) = selector f"
  using selectorLoop_panic [of 0 "selector f" "Selector i" IndexOutOfRange]
  by (auto simp: DoesFilterApplyToIndex_def split: sum.splits bool.splits)

text \<open>
  C4. The filter applies only when its selector is element-wise equal to the index's.
  The code compares the positions of the index's selector only and never the lengths:
  for the index on \<^verbatim>\<open>Address\<close> and the filter on \<^verbatim>\<open>Address.ZipCode\<close>, two selectors
  of different lengths, it returns true.
\<close>

theorem DoesFilterApplyToIndex_accepts_longer_selector:
  "DoesFilterApplyToIndex
     \<lparr>Name = ''address'', Selector = [''Address''], Type_idx = IntIndex\<rparr>
     (SetSelector h [''Address'', ''ZipCode''] (CompareTo (GoInt 65) (NewFilter Equal))) =
   Inr True"
  by (simp add: DoesFilterApplyToIndex_def SetSelector_def CompareTo_def NewFilter_def)

text \<open>
  C8. \<^verbatim>\<open>DoesFilterApplyToIndex\<close> is to return a boolean for every index and filter. For
  the index on \<^verbatim>\<open>Address.ZipCode\<close> and the filter on \<^verbatim>\<open>Address\<close>, the loop reads
  \<^verbatim>\<open>filter.selector[1]\<close>, which the filter's selector does not have: the call panics.
\<close>

theorem DoesFilterApplyToIndex_shorter_selector_panics:
  "DoesFilterApplyToIndex
     \<lparr>Name = ''zip'', Selector = [''Address'', ''ZipCode''], Type_idx = IntIndex\<rparr>
     (SetSelector h [''Address''] (CompareTo (GoInt 65) (NewFilter Equal))) =
   Inl IndexOutOfRange"
  by (simp add: DoesFilterApplyToIndex_def SetSelector_def CompareTo_def NewFilter_def)

subsection \<open>Indexes of the bytes type\<close>

lemma valuesLoop_tagged:
  "taggedValues vs \<Longrightarrow>
   valuesLoop BytesIndex vs = False \<and> valuesLoop UintIndex vs = False"
  by (induction vs) auto

text \<open>
  No filter built by \<^verbatim>\<open>NewFilter\<close>, \<^verbatim>\<open>CompareTo\<close>, \<^verbatim>\<open>EqualWanted\<close> and \<^verbatim>\<open>SetSelector\<close>
  makes an index of the bytes type answer true, and the answer is false whenever the
  filter's selector is as long as the index's or longer.
\<close>

lemma DoesFilterApplyToIndex_bytes_never_true:
  "taggedFilter f \<Longrightarrow> Type_idx i = BytesIndex \<Longrightarrow> DoesFilterApplyToIndex i f \<noteq> Inr True"
  by (auto simp: DoesFilterApplyToIndex_def taggedFilter_def valuesLoop_tagged
      split: sum.splits bool.splits option.splits)

lemma DoesFilterApplyToIndex_bytes_false:
  "taggedFilter f \<Longrightarrow> Type_idx i = BytesIndex \<Longrightarrow>
   length (Selector i) \<le> length (selector f) \<Longrightarrow>
   DoesFilterApplyToIndex i f = Inr False"
  using selectorLoop_in_range [of 0 "Selector i" "selector f"]
  by (auto simp: DoesFilterApplyToIndex_def taggedFilter_def valuesLoop_tagged
      split: sum.splits bool.splits option.splits)

text \<open>
  C9. Every value of a filter is tagged string, integer or time, so an index of the bytes
  type is to answer false to every filter. For the index on \<^verbatim>\<open>Document.Raw\<close> of the
  bytes type and the filter on \<^verbatim>\<open>Document\<close>, the call does not return false: it panics
  in the selector loop before it looks at a value.
\<close>

theorem DoesFilterApplyToIndex_bytes_index_panics:
  "DoesFilterApplyToIndex
     \<lparr>Name = ''raw'', Selector = [''Document'', ''Raw''], Type_idx = BytesIndex\<rparr>
     (SetSelector h [''Document''] (CompareTo (GoString ''x'') (NewFilter Equal))) =
   Inl IndexOutOfRange"
  by (simp add: DoesFilterApplyToIndex_def SetSelector_def CompareTo_def NewFilter_def)

section \<open>Range lookups: what a lookup returns\<close>

lemmas range_defs = getIDsForRangeOfValues_def Seek_def cursorEntry_def newIDs_def
  commaIDs_def AddIDs_def nextFunc_def Next_def Prev_def limitCrossed_def idStrings_def

text \<open>
  C2. An increasing lookup from a key that is absent is to include the ids under the
  smallest key greater than it. \<^verbatim>\<open>Seek\<close> already stands on that key when the loop
  starts, the loop begins with \<^verbatim>\<open>Next\<close>, and the ids under the key are never added:
  with the keys \<^verbatim>\<open>b\<close> and \<^verbatim>\<open>c\<close> in the bucket, the lookup from \<^verbatim>\<open>a\<close> returns the id
  under \<^verbatim>\<open>c\<close> only, whether or not equality is kept.
\<close>

theorem getIDsForRangeOfValues_skips_next_key:
  "idStrings (getIDsForRangeOfValues commaIDs
      \<lparr>Name_it = ''email'', SelectorHash = h, options_it = \<lparr>InternalQueryLimit = 1000\<rparr>\<rparr>
      (Inr [(''b'', ''1''), (''c'', ''2'')]) ''a'' None False True) = Inr [''2''] \<and>
   idStrings (getIDsForRangeOfValues commaIDs
      \<lparr>Name_it = ''email'', SelectorHash = h, options_it = \<lparr>InternalQueryLimit = 1000\<rparr>\<rparr>
      (Inr [(''b'', ''1''), (''c'', ''2'')]) ''a'' (Some ''z'') True True) = Inr [''2'']"
  by (simp add: range_defs)

text \<open>
  The decreasing lookup from an absent key does start at the key before it, and an
  increasing lookup from a key that is there keeps or drops that key as asked.
\<close>

lemma getIDsForRangeOfValues_decreasing_from_absent_key:
  "idStrings (getIDsForRangeOfValues commaIDs
      \<lparr>Name_it = ''email'', SelectorHash = h, options_it = \<lparr>InternalQueryLimit = 1000\<rparr>\<rparr>
      (Inr [(''b'', ''1''), (''c'', ''2'')]) ''bb'' None False False) = Inr [''1'']"
  by (simp add: range_defs)

lemma getIDsForRangeOfValues_increasing_from_present_key:
  "idStrings (getIDsForRangeOfValues commaIDs
      \<lparr>Name_it = ''email'', SelectorHash = h, options_it = \<lparr>InternalQueryLimit = 1000\<rparr>\<rparr>
      (Inr [(''b'', ''1''), (''c'', ''2'')]) ''b'' None True True) = Inr [''1'', ''2''] \<and>
   idStrings (getIDsForRangeOfValues commaIDs
      \<lparr>Name_it = ''email'', SelectorHash = h, options_it = \<lparr>InternalQueryLimit = 1000\<rparr>\<rparr>
      (Inr [(''b'', ''1''), (''c'', ''2'')]) ''b'' None False True) = Inr [''2'']"
  by (simp add: range_defs)

text \<open>
  C3. The result of a lookup is to hold at most \<^verbatim>\<open>InternalQueryLimit\<close> ids. The ids under
  the start key are added before the loop, and the test that cuts the result
  (\<^verbatim>\<open>// Clean if to big\<close>) stands inside the loop, after an addition: with a limit of 2
  and three ids under the only key, the lookup returns three ids.
\<close>

theorem getIDsForRangeOfValues_exceeds_limit:
  "idStrings (getIDsForRangeOfValues commaIDs
      \<lparr>Name_it = ''age'', SelectorHash = h, options_it = \<lparr>InternalQueryLimit = 2\<rparr>\<rparr>
      (Inr [(''a'', ''1,2,3'')]) ''a'' None True True) = Inr [''1'', ''2'', ''3'']"
  by (simp add: range_defs)

text \<open>Where the loop does make an addition that passes the limit, it cuts to the limit.\<close>

lemma getIDsForRangeOfValues_cut_in_loop:
  "idStrings (getIDsForRangeOfValues commaIDs
      \<lparr>Name_it = ''age'', SelectorHash = h, options_it = \<lparr>InternalQueryLimit = 2\<rparr>\<rparr>
      (Inr [(''a'', ''1''), (''b'', ''2,3,4''), (''c'', ''5'')]) ''a'' None True True) =
   Inr [''1'', ''2'']"
  by (simp add: range_defs)

section \<open>The versioned record store: rollback\<close>

lemma Get_Put: "0 < RevisionDepth s \<Longrightarrow> Get rid 0 (Put rid content s) = Inr content"
  by (cases "RevisionDepth s") (simp_all add: Get_def Put_def)

text \<open>
  The definitions on the rollback scenario of the specification: after three puts the
  live payload is the third, and \<^verbatim>\<open>Rollback("1", 2)\<close> returns the timestamp of the first
  put and restores the first payload.
\<close>

lemma Rollback_scenario:
  "Get ''1'' 0 threePuts = Inr ''third'' \<and>
   fst (Rollback ''1'' 2 threePuts) = Inr 1 \<and>
   Get ''1'' 0 (snd (Rollback ''1'' 2 threePuts)) = Inr ''first'' \<and>
   Get ''1'' 1 (snd (Rollback ''1'' 2 threePuts)) = Inr ''third''"
  by (simp add: threePuts_def Get_def Put_def Rollback_def emptyStore_def Let_def)

text \<open>
  The rollback inverse of the specification: after the puts of \<open>a\<close> and \<open>b\<close>, a rollback
  by one revision makes \<open>a\<close> the live payload again.
\<close>

lemma Rollback_inverse:
  "1 < RevisionDepth s \<Longrightarrow>
   Get rid 0 (snd (Rollback rid 1 (Put rid b (Put rid a s)))) = Inr a"
proof -
  assume k: "1 < RevisionDepth s"
  then obtain m where m: "RevisionDepth s = Suc (Suc m)"
    by (cases "RevisionDepth s"; cases "RevisionDepth s - 1") auto
  have d: "RevisionDepth (Put rid b (Put rid a s)) = RevisionDepth s"
    by (simp add: Put_def)
  have r: "\<exists>t u rest. revisions (Put rid b (Put rid a s)) rid =
             \<lparr>timestamp = t, payload = b\<rparr> # \<lparr>timestamp = u, payload = a\<rparr> # rest"
    by (simp add: Put_def m)
  then obtain t u rest where
    "revisions (Put rid b (Put rid a s)) rid =
       \<lparr>timestamp = t, payload = b\<rparr> # \<lparr>timestamp = u, payload = a\<rparr> # rest"
    by blast
  then have "snd (Rollback rid 1 (Put rid b (Put rid a s))) =
      Put rid a (Put rid b (Put rid a s))"
    by (simp add: Rollback_def Let_def)
  then show ?thesis using k d by (simp add: Get_Put)
qed

text \<open>
  C6. \<^verbatim>\<open>Rollback\<close> of a record with an offset greater than the number of its stored
  previous revisions fails with \<^verbatim>\<open>RevisionOutOfRange\<close> and leaves the state unchanged:
  \<^verbatim>\<open>Get\<close> returns afterwards what it returned before.
\<close>

theorem Rollback_out_of_range:
  "length (revisions s rid) - 1 < n \<Longrightarrow>
   Rollback rid n s = (Inl RevisionOutOfRange, s) \<and>
   Get rid 0 (snd (Rollback rid n s)) = Get rid 0 s"
  by (auto simp: Rollback_def)

theorem Rollback_out_of_range_witness:
  "length (revisions (Put ''1'' ''B'' (Put ''1'' ''A'' (emptyStore 10))) ''1'') - 1 < 2 \<and>
   Rollback ''1'' 2 (Put ''1'' ''B'' (Put ''1'' ''A'' (emptyStore 10))) =
     (Inl RevisionOutOfRange, Put ''1'' ''B'' (Put ''1'' ''A'' (emptyStore 10))) \<and>
   Get ''1'' 0 (snd (Rollback ''1'' 2 (Put ''1'' ''B'' (Put ''1'' ''A'' (emptyStore 10))))) =
     Inr ''B''"
  using Rollback_out_of_range [of "Put ''1'' ''B'' (Put ''1'' ''A'' (emptyStore 10))" "''1''" 2]
  by (simp add: Put_def emptyStore_def Get_def)

end
